theory Spec2Isabelle
  imports Complex_Main
begin

section \<open>Errors\<close>

text \<open>
  The Python exceptions that \<^verbatim>\<open>multistate_kernel/util.py\<close> can raise, as values. A function
  that may raise returns \<open>error + 'a\<close>, with \<open>Inl\<close> for the exception.
\<close>

datatype error = ValueError | KeyError | IndexError | AttributeError | TypeError

fun sequence :: "(error + 'a) list \<Rightarrow> error + 'a list" where
  "sequence [] = Inr []"
| "sequence (Inl e # rs) = Inl e"
| "sequence (Inr v # rs) = (case sequence rs of Inl e \<Rightarrow> Inl e | Inr vs \<Rightarrow> Inr (v # vs))"

section \<open>The numpy operations the module calls\<close>

text \<open>
  The module computes on two kinds of numbers. The coordinates and the index column of the
  feature matrix are only copied, compared with a state index and selected: they are real
  numbers here. The values, the errors and the norm go through numpy's arithmetic, whose
  results depend on the dtype of the arrays and on floating-point rounding and overflow. Their
  type \<open>'v\<close> is left open, and what numpy computes on them is a parameter of the model:

  \<^item> \<open>np_std\<close>: \<^verbatim>\<open>y.std()\<close>, the standard deviation as numpy returns it;
  \<^item> \<open>np_divide\<close>, \<open>np_multiply\<close>: the division and the multiplication of one element by
    the norm, as numpy rounds them;
  \<^item> \<open>np_inplace\<close>: whether the array of the stacked values can hold a quotient, which is what
    the in-place \<^verbatim>\<open>y /= norm\<close> needs: true for a floating-point array, false for an integer
    array, where numpy raises a \<^verbatim>\<open>TypeError\<close>.

  The zero of \<open>'v\<close> is the value Python's \<^verbatim>\<open>or\<close> takes for false, its one is the literal 1.
\<close>

record 'v numpy =
  np_std :: "'v list \<Rightarrow> 'v"
  np_divide :: "'v \<Rightarrow> 'v \<Rightarrow> 'v"
  np_multiply :: "'v \<Rightarrow> 'v \<Rightarrow> 'v"
  np_inplace :: bool

text \<open>\<^verbatim>\<open>y /= norm\<close>: every element divided by the norm, stored in the array of \<open>y\<close>.\<close>

definition itruediv :: "'v numpy \<Rightarrow> 'v list \<Rightarrow> 'v \<Rightarrow> error + 'v list" where
  "itruediv np y c =
     (if np_inplace np then Inr (map (\<lambda>v. np_divide np v c) y) else Inl TypeError)"

text \<open>\<^verbatim>\<open>np.full_like(a, v)\<close>: an array of the shape of \<open>a\<close> filled with \<open>v\<close>.\<close>

definition np_full_like :: "real list \<Rightarrow> real \<Rightarrow> real list" where
  "np_full_like a v = replicate (length a) v"

text \<open>
  \<^verbatim>\<open>np.block\<close> on a list of two-column rows \<^verbatim>\<open>[a.reshape(-1,1), b.reshape(-1,1)]\<close>: the two
  columns of a row are joined side by side, the rows are stacked. An empty list is refused with
  \<^verbatim>\<open>ValueError\<close>. A matrix with two columns is the list of its rows.
\<close>

definition np_block :: "(real list \<times> real list) list \<Rightarrow> error + (real \<times> real) list" where
  "np_block blocks =
     (if blocks = [] then Inl ValueError
      else Inr (concat (map (\<lambda>(a, b). zip a b) blocks)))"

text \<open>\<^verbatim>\<open>np.hstack\<close> on 1-D arrays: their concatenation; no array at all is a \<^verbatim>\<open>ValueError\<close>.\<close>

definition np_hstack :: "'v list list \<Rightarrow> error + 'v list" where
  "np_hstack arrs = (if arrs = [] then Inl ValueError else Inr (concat arrs))"

text \<open>\<^verbatim>\<open>np.unique\<close>: the sorted distinct elements.\<close>

definition np_unique :: "real list \<Rightarrow> real list" where
  "np_unique a = sort (remdups a)"

text \<open>
  Indexing with a boolean mask, \<^verbatim>\<open>a[idx]\<close>: the elements where the mask is true, in order.
  numpy raises \<^verbatim>\<open>IndexError\<close> when the mask is not as long as the array, unless the mask is
  empty: an empty mask selects nothing from an array of any length.
\<close>

definition select :: "bool list \<Rightarrow> 'a list \<Rightarrow> 'a list" where
  "select bmask a = map snd (filter fst (zip bmask a))"

definition bool_index :: "bool list \<Rightarrow> 'a list \<Rightarrow> error + 'a list" where
  "bool_index bmask a =
     (if bmask \<noteq> [] \<and> length bmask \<noteq> length a then Inl IndexError else Inr (select bmask a))"

text \<open>Python's \<^verbatim>\<open>a or b\<close> on numbers: \<open>a\<close> when it is true, that is not zero, else \<open>b\<close>.\<close>

definition py_or :: "'v::zero \<Rightarrow> 'v \<Rightarrow> 'v" where
  "py_or a b = (if a \<noteq> 0 then a else b)"

text \<open>
  Indexing a tuple with an integer, \<^verbatim>\<open>t[i]\<close>: a negative index counts from the end, and an
  index that is still out of range raises \<^verbatim>\<open>IndexError\<close>.
\<close>

definition tuple_getitem :: "'a list \<Rightarrow> int \<Rightarrow> error + 'a" where
  "tuple_getitem t i =
     (if 0 \<le> i \<and> i < int (length t) then Inr (t ! nat i)
      else if - int (length t) \<le> i \<and> i < 0 then Inr (t ! nat (int (length t) + i))
      else Inl IndexError)"

section \<open>FrozenOrderedDict\<close>

text \<open>
  \<^verbatim>\<open>collections.OrderedDict\<close> as the list of its items in insertion order. Storing under a
  key that is present replaces the value and keeps the key's place; a new key goes last.
\<close>

fun setitem :: "'k \<Rightarrow> 'v \<Rightarrow> ('k \<times> 'v) list \<Rightarrow> ('k \<times> 'v) list" where
  "setitem k v [] = [(k, v)]"
| "setitem k v (p # ps) = (if fst p = k then (fst p, v) # ps else p # setitem k v ps)"

definition OrderedDict :: "('k \<times> 'v) list \<Rightarrow> ('k \<times> 'v) list" where
  "OrderedDict items = foldl (\<lambda>d (k, v). setitem k v d) [] items"

record ('k, 'v) FrozenOrderedDict =
  fod_d :: "('k \<times> 'v) list"
  fod_hash :: "int option"

definition FrozenOrderedDict_init :: "('k \<times> 'v) list \<Rightarrow> ('k, 'v) FrozenOrderedDict" where
  "FrozenOrderedDict_init items = \<lparr>fod_d = OrderedDict items, fod_hash = None\<rparr>"

definition iter :: "('k, 'v) FrozenOrderedDict \<Rightarrow> 'k list" where
  "iter self = map fst (fod_d self)"

definition len :: "('k, 'v) FrozenOrderedDict \<Rightarrow> nat" where
  "len self = length (fod_d self)"

definition getitem :: "('k, 'v) FrozenOrderedDict \<Rightarrow> 'k \<Rightarrow> error + 'v" where
  "getitem self item = (case map_of (fod_d self) item of None \<Rightarrow> Inl KeyError | Some v \<Rightarrow> Inr v)"

definition itervalues :: "('k, 'v) FrozenOrderedDict \<Rightarrow> 'v list" where
  "itervalues self = map snd (fod_d self)"

text \<open>
  \<^verbatim>\<open>__hash__\<close>: when no hash is cached, \<^verbatim>\<open>hash(iteritems(self._d))\<close> is computed and stored.
  \<^verbatim>\<open>iteritems\<close> returns a fresh iterator object, and the hash of an iterator is the hash of
  its identity: a number the runtime chooses when it allocates the object. It is the first
  argument here. No entry of the dictionary is read, and hashing an iterator never raises.
\<close>

definition hash :: "int \<Rightarrow> ('k, 'v) FrozenOrderedDict \<Rightarrow> error + int \<times> ('k, 'v) FrozenOrderedDict" where
  "hash iterator_hash self =
     (case fod_hash self of
        None \<Rightarrow> Inr (iterator_hash, self\<lparr>fod_hash := Some iterator_hash\<rparr>)
      | Some h \<Rightarrow> Inr (h, self))"

section \<open>StateData, ScikitLearnData and MultiStateData\<close>

record 'v StateData =
  sd_x :: "real list"
  sd_y :: "'v list"
  sd_err :: "'v list"

record 'v ScikitLearnData =
  sk_x :: "(real \<times> real) list"
  sk_y :: "'v list"
  sk_err :: "'v list"
  sk_norm :: 'v

text \<open>
  A state's key: a name the caller gives, or a number. The default keys of
  \<^verbatim>\<open>from_scikit_learn_data\<close> are the numbers of the index column.
\<close>

datatype 'a state_key = Named 'a | Numeric real

record ('a, 'v) MultiStateData =
  m_dict :: "('a state_key, 'v StateData) FrozenOrderedDict"
  m_scikit :: "'v ScikitLearnData"
  m_keys_tuple :: "'a state_key list"
  m_state_idx_dict :: "'a state_key \<Rightarrow> nat option"

definition MultiStateData_init ::
  "('a state_key, 'v StateData) FrozenOrderedDict \<Rightarrow> 'v ScikitLearnData
     \<Rightarrow> ('a, 'v) MultiStateData" where
  "MultiStateData_init state_data_odict scikit_learn_data =
     \<lparr>m_dict = state_data_odict,
      m_scikit = scikit_learn_data,
      m_keys_tuple = iter state_data_odict,
      m_state_idx_dict =
        foldl (\<lambda>m (i, x). m(x \<mapsto> i)) Map.empty (enumerate 0 (iter state_data_odict))\<rparr>"

definition odict :: "('a, 'v) MultiStateData \<Rightarrow> ('a state_key, 'v StateData) FrozenOrderedDict" where
  "odict self = m_dict self"


definition norm_m :: "('a, 'v) MultiStateData \<Rightarrow> 'v" where
  "norm_m self = sk_norm (m_scikit self)"

definition keys :: "('a, 'v) MultiStateData \<Rightarrow> 'a state_key list" where
  "keys self = m_keys_tuple self"

definition key :: "('a, 'v) MultiStateData \<Rightarrow> int \<Rightarrow> error + 'a state_key" where
  "key self i = tuple_getitem (m_keys_tuple self) i"

definition idx :: "('a, 'v) MultiStateData \<Rightarrow> 'a state_key \<Rightarrow> error + nat" where
  "idx self k = (case m_state_idx_dict self k of None \<Rightarrow> Inl KeyError | Some i \<Rightarrow> Inr i)"

definition x_2d_from_1d :: "real list list \<Rightarrow> error + (real \<times> real) list" where
  "x_2d_from_1d x_1d =
     np_block (map (\<lambda>(i, x). (np_full_like x (real i), x)) (enumerate 0 x_1d))"

definition sample :: "('a, 'v) MultiStateData \<Rightarrow> real list \<Rightarrow> error + (real \<times> real) list" where
  "sample self x = x_2d_from_1d (replicate (length (keys self)) x)"

text \<open>
  \<^verbatim>\<open>from_scikit_learn_data\<close>: the generator yields one item per key, in order; the item of the
  key at position \<open>i\<close> holds the rows whose index column equals \<open>i\<close>, with \<open>y\<close> and \<open>err\<close>
  multiplied by the norm. The items then fill a \<^verbatim>\<open>FrozenOrderedDict\<close>.
\<close>

definition multi_state_data_generator ::
  "'v numpy \<Rightarrow> 'v ScikitLearnData \<Rightarrow> 'k list \<Rightarrow> (error + 'k \<times> 'v StateData) list" where
  "multi_state_data_generator np data ks =
     map (\<lambda>(i, k).
            let bmask = map (\<lambda>row. fst row = real i) (sk_x data) in
            case bool_index bmask (sk_y data) of
              Inl e \<Rightarrow> Inl e
            | Inr ys \<Rightarrow>
                (case bool_index bmask (sk_err data) of
                   Inl e \<Rightarrow> Inl e
                 | Inr errs \<Rightarrow>
                     Inr (k, \<lparr>sd_x = select bmask (map snd (sk_x data)),
                              sd_y = map (\<lambda>v. np_multiply np v (sk_norm data)) ys,
                              sd_err = map (\<lambda>v. np_multiply np v (sk_norm data)) errs\<rparr>)))
         (enumerate 0 ks)"

definition from_scikit_learn_data ::
  "'v numpy \<Rightarrow> 'v ScikitLearnData \<Rightarrow> 'a state_key list option
     \<Rightarrow> error + ('a, 'v) MultiStateData" where
  "from_scikit_learn_data np data keys_arg =
     (let ks = (case keys_arg of
                  None \<Rightarrow> map Numeric (np_unique (map fst (sk_x data)))
                | Some ks \<Rightarrow> ks)
      in case sequence (multi_state_data_generator np data ks) of
           Inl e \<Rightarrow> Inl e
         | Inr items \<Rightarrow> Inr (MultiStateData_init (FrozenOrderedDict_init items) data))"

definition from_arrays ::
  "'v numpy \<Rightarrow> (real \<times> real) list \<Rightarrow> 'v list \<Rightarrow> 'v list \<Rightarrow> 'v \<Rightarrow> 'a state_key list option
     \<Rightarrow> error + ('a, 'v) MultiStateData" where
  "from_arrays np x y err nrm keys_arg =
     from_scikit_learn_data np \<lparr>sk_x = x, sk_y = y, sk_err = err, sk_norm = nrm\<rparr> keys_arg"

definition from_state_data ::
  "'v::{zero,one} numpy \<Rightarrow> ('a state_key \<times> 'v StateData) list \<Rightarrow> error + ('a, 'v) MultiStateData" where
  "from_state_data np items =
     (let d = FrozenOrderedDict_init items in
      case x_2d_from_1d (map sd_x (itervalues d)) of
        Inl e \<Rightarrow> Inl e
      | Inr x \<Rightarrow>
          (case np_hstack (map sd_y (itervalues d)) of
             Inl e \<Rightarrow> Inl e
           | Inr y \<Rightarrow>
               if length y = 0 then Inl ValueError
               else
                 let nrm = py_or (py_or (np_std np y) (y ! 0)) 1 in
                 (case itruediv np y nrm of
                    Inl e \<Rightarrow> Inl e
                  | Inr y' \<Rightarrow>
                      (case np_hstack (map sd_err (itervalues d)) of
                         Inl e \<Rightarrow> Inl e
                       | Inr err \<Rightarrow>
                           Inr (MultiStateData_init d
                                  \<lparr>sk_x = x,
                                   sk_y = y',
                                   sk_err = map (\<lambda>v. np_divide np v nrm) err,
                                   sk_norm = nrm\<rparr>)))))"

definition from_items ::
  "'v::{zero,one} numpy \<Rightarrow> ('a state_key \<times> real list \<times> 'v list \<times> 'v list) list
     \<Rightarrow> error + ('a, 'v) MultiStateData" where
  "from_items np items =
     from_state_data np
       (map (\<lambda>(k, x, y, err). (k, \<lparr>sd_x = x, sd_y = y, sd_err = err\<rparr>)) items)"

text \<open>
  What an instance of \<^verbatim>\<open>MultiStateData\<close> answers to: the attributes \<^verbatim>\<open>__init__\<close> sets and
  the names the class body binds. The class defines no \<^verbatim>\<open>__getattr__\<close>, and \<^verbatim>\<open>__name__\<close>
  is an attribute of the class object only, not of its instances.
\<close>

definition instance_attributes :: "string list" where
  "instance_attributes =
     [''_dict'', ''_scikit'', ''_keys_tuple'', ''_state_idx_dict'',
      ''__init__'', ''odict'', ''arrays'', ''norm'', ''keys'', ''key'', ''idx'',
      ''_x_2d_from_1d'', ''sample'', ''convert_arrays'', ''from_items'', ''from_state_data'',
      ''from_arrays'', ''from_scikit_learn_data'', ''__doc__'', ''__module__'', ''__class__'',
      ''__dict__'']"

text \<open>
  \<^verbatim>\<open>convert_arrays\<close>: its body opens with the expression
  \<^verbatim>\<open>"""...""".format(class_name=self.__name__)\<close>. That is a method call, not a string literal,
  so it is no docstring: it is evaluated at every call, and reads \<^verbatim>\<open>self.__name__\<close> before the
  \<^verbatim>\<open>return\<close> is reached.
\<close>

definition convert_arrays ::
  "'v numpy \<Rightarrow> ('a, 'v) MultiStateData \<Rightarrow> (real \<times> real) list \<Rightarrow> 'v list \<Rightarrow> 'v list
     \<Rightarrow> error + ('a, 'v) MultiStateData" where
  "convert_arrays np self x y err =
     (if ''__name__'' \<notin> set instance_attributes then Inl AttributeError
      else from_arrays np x y err (norm_m self) (Some (keys self)))"

section \<open>The rows of one state\<close>

text \<open>
  A reference for the claims about \<^verbatim>\<open>from_scikit_learn_data\<close>, written from their words and
  not from the code: the record made of the rows of the flat bundle whose index column equals
  \<open>i\<close>, with the values and errors of those rows multiplied by the norm.
\<close>

definition rows_at_position :: "'v numpy \<Rightarrow> 'v ScikitLearnData \<Rightarrow> nat \<Rightarrow> 'v StateData" where
  "rows_at_position np data i =
     \<lparr>sd_x = map snd (filter (\<lambda>row. fst row = real i) (sk_x data)),
      sd_y = map (\<lambda>(row, v). np_multiply np v (sk_norm data))
               (filter (\<lambda>(row, v). fst row = real i) (zip (sk_x data) (sk_y data))),
      sd_err = map (\<lambda>(row, v). np_multiply np v (sk_norm data))
                 (filter (\<lambda>(row, v). fst row = real i) (zip (sk_x data) (sk_err data)))\<rparr>"


section \<open>Three arithmetics\<close>

text \<open>
  Exact arithmetic on real numbers: what numpy computes on floating-point arrays wherever no
  result is rounded or overflows. The standard deviation is the population one
  (\<^verbatim>\<open>ddof=0\<close>).
\<close>

definition exact_mean :: "real list \<Rightarrow> real" where
  "exact_mean a = sum_list a / real (length a)"

definition exact_std :: "real list \<Rightarrow> real" where
  "exact_std a = sqrt (exact_mean (map (\<lambda>v. (v - exact_mean a)\<^sup>2) a))"

definition real_numpy :: "real numpy" where
  "real_numpy =
     \<lparr>np_std = exact_std, np_divide = (\<lambda>v c. v / c), np_multiply = (\<lambda>v c. v * c),
      np_inplace = True\<rparr>"

text \<open>
  Integer arrays, with the same exact results: what differs is that an integer array cannot
  take a quotient in place.
\<close>

definition int_numpy :: "real numpy" where
  "int_numpy = real_numpy\<lparr>np_inplace := False\<rparr>"

text \<open>
  Floating-point numbers with the infinities and NaN of IEEE 754, without rounding and without
  the sign of zero: a finite result is kept exact, and a result that IEEE 754 rounds to an
  infinity is that infinity. For doubles these are the results of magnitude
  \<open>2^1024 - 2^970\<close> and more: the midpoint between the largest double and \<open>2^1024\<close>, and
  everything beyond. This is what numpy computes on \<^verbatim>\<open>float64\<close> arrays wherever every exact
  result is a double or overflows.
\<close>

datatype float64 = Finite real | PInf | NInf | NaN












instantiation float64 :: "{zero, one}"
begin

definition zero_float64 :: float64 where
  "zero_float64 = Finite 0"

definition one_float64 :: float64 where
  "one_float64 = Finite 1"

instance ..

end


section \<open>The example of the specification\<close>

text \<open>
  Two states \<open>A\<close> and \<open>B\<close> with three observations in total, and the flat bundle that
  \<^verbatim>\<open>from_state_data\<close> builds from them in exact arithmetic: the norm is the standard
  deviation of \<open>10, 20, 30\<close>.
\<close>

definition example_states :: "(string state_key \<times> real StateData) list" where
  "example_states =
     [(Named ''A'', \<lparr>sd_x = [1, 2], sd_y = [10, 20], sd_err = [1, 1]\<rparr>),
      (Named ''B'', \<lparr>sd_x = [3], sd_y = [30], sd_err = [2]\<rparr>)]"

definition example_arrays :: "real ScikitLearnData" where
  "example_arrays =
     \<lparr>sk_x = [(0, 1), (0, 2), (1, 3)],
      sk_y = [10 / sqrt (200 / 3), 20 / sqrt (200 / 3), 30 / sqrt (200 / 3)],
      sk_err = [1 / sqrt (200 / 3), 1 / sqrt (200 / 3), 2 / sqrt (200 / 3)],
      sk_norm = sqrt (200 / 3)\<rparr>"

section \<open>Facts about OrderedDict\<close>

lemma map_fst_setitem:
  "map fst (setitem k v d) = (if k \<in> set (map fst d) then map fst d else map fst d @ [k])"
  by (induction d) auto

lemma distinct_setitem: "distinct (map fst d) \<Longrightarrow> distinct (map fst (setitem k v d))"
  by (simp add: map_fst_setitem)

lemma map_of_setitem: "map_of (setitem k v d) = (map_of d)(k \<mapsto> v)"
  by (induction d) (auto simp: fun_eq_iff)

lemma setitem_fresh: "k \<notin> set (map fst d) \<Longrightarrow> setitem k v d = d @ [(k, v)]"
  by (induction d) auto

lemma foldl_setitem_distinct:
  "distinct (map fst d) \<Longrightarrow> distinct (map fst (foldl (\<lambda>d (k, v). setitem k v d) d items))"
  by (induction items arbitrary: d) (auto simp: distinct_setitem)

lemma distinct_OrderedDict: "distinct (map fst (OrderedDict items))"
  by (simp add: OrderedDict_def foldl_setitem_distinct)

lemma foldl_setitem_fresh:
  "distinct (map fst d @ map fst items) \<Longrightarrow> foldl (\<lambda>d (k, v). setitem k v d) d items = d @ items"
proof (induction items arbitrary: d)
  case Nil
  then show ?case by simp
next
  case (Cons p items)
  obtain k v where p: "p = (k, v)" by (cases p)
  from Cons.prems have fresh: "k \<notin> set (map fst d)" by (auto simp: p)
  from Cons.prems have "distinct (map fst (d @ [(k, v)]) @ map fst items)" by (auto simp: p)
  from Cons.IH[OF this] show ?case by (simp add: p setitem_fresh[OF fresh])
qed

lemma OrderedDict_distinct: "distinct (map fst items) \<Longrightarrow> OrderedDict items = items"
  using foldl_setitem_fresh[of "[]" items] by (simp add: OrderedDict_def)

section \<open>from_state_data, unfolded\<close>

lemma x_2d_from_1d_eq:
  "x_2d_from_1d xs =
     (if xs = [] then Inl ValueError
      else Inr (concat (map (\<lambda>(i, x). zip (replicate (length x) (real i)) x) (enumerate 0 xs))))"
proof -
  have "(\<lambda>(a, b). zip a b) \<circ> (\<lambda>(i, x). (np_full_like x (real i), x))
      = (\<lambda>(i, x). zip (replicate (length x) (real i)) x)"
    by (auto simp: fun_eq_iff np_full_like_def)
  then show ?thesis
    by (simp add: x_2d_from_1d_def np_block_def enumerate_eq_zip)
qed

lemma from_state_data_eq:
  "from_state_data np items =
     (let d = FrozenOrderedDict_init items;
          y = concat (map sd_y (itervalues d));
          nrm = py_or (py_or (np_std np y) (y ! 0)) 1
      in if y = [] then Inl ValueError
         else if \<not> np_inplace np then Inl TypeError
         else Inr (MultiStateData_init d
                \<lparr>sk_x = concat (map (\<lambda>(i, x). zip (replicate (length x) (real i)) x)
                                (enumerate 0 (map sd_x (itervalues d)))),
                 sk_y = map (\<lambda>v. np_divide np v nrm) y,
                 sk_err = map (\<lambda>v. np_divide np v nrm) (concat (map sd_err (itervalues d))),
                 sk_norm = nrm\<rparr>))"
  by (cases "itervalues (FrozenOrderedDict_init items) = []")
     (simp_all add: from_state_data_def x_2d_from_1d_eq np_hstack_def itruediv_def Let_def)

lemma py_or_chain:
  "py_or (py_or s f) 1 = (if s \<noteq> 0 then s else if f \<noteq> 0 then f else 1)"
  by (simp add: py_or_def)

lemma OrderedDict_example: "OrderedDict example_states = example_states"
  by (rule OrderedDict_distinct) (simp add: example_states_def)


section \<open>Lookups\<close>

lemma foldl_idx_absent:
  "k \<notin> set ks \<Longrightarrow> foldl (\<lambda>m (i, x). m(x \<mapsto> i)) m0 (enumerate n ks) k = m0 k"
  by (induction ks arbitrary: n m0) auto

lemma foldl_idx_present:
  "distinct ks \<Longrightarrow> i < length ks \<Longrightarrow>
     foldl (\<lambda>m (i, x). m(x \<mapsto> i)) m0 (enumerate n ks) (ks ! i) = Some (n + i)"
proof (induction ks arbitrary: n m0 i)
  case Nil
  then show ?case by simp
next
  case (Cons a ks)
  show ?case
  proof (cases i)
    case 0
    from Cons.prems have "a \<notin> set ks" by simp
    then have "foldl (\<lambda>m (i, x). m(x \<mapsto> i)) (m0(a \<mapsto> n)) (enumerate (Suc n) ks) a
        = (m0(a \<mapsto> n)) a"
      by (rule foldl_idx_absent)
    then show ?thesis
      unfolding 0 by (simp only: enumerate_simps foldl.simps prod.case nth_Cons_0 fun_upd_same add_0_right)
  next
    case (Suc j)
    with Cons.prems Cons.IH[of j "m0(a \<mapsto> n)" "Suc n"] show ?thesis by simp
  qed
qed

lemma keys_init: "keys (MultiStateData_init (FrozenOrderedDict_init items) data) = map fst (OrderedDict items)"
  by (simp add: keys_def MultiStateData_init_def iter_def FrozenOrderedDict_init_def)

lemma idx_init:
  "idx (MultiStateData_init (FrozenOrderedDict_init items) data) k =
     (case foldl (\<lambda>m (i, x). m(x \<mapsto> i)) Map.empty (enumerate 0 (map fst (OrderedDict items))) k of
        None \<Rightarrow> Inl KeyError | Some i \<Rightarrow> Inr i)"
  by (simp add: idx_def MultiStateData_init_def iter_def FrozenOrderedDict_init_def)

lemma getitem_absent: "k \<notin> set (iter d) \<Longrightarrow> getitem d k = Inl KeyError"
proof -
  assume "k \<notin> set (iter d)"
  then have "map_of (fod_d d) k = None" by (simp add: iter_def map_of_eq_None_iff)
  then show ?thesis by (simp add: getitem_def)
qed

lemma getitem_present: "k \<in> set (iter d) \<Longrightarrow> \<exists>v. getitem d k = Inr v \<and> (k, v) \<in> set (fod_d d)"
proof -
  assume "k \<in> set (iter d)"
  then have "map_of (fod_d d) k \<noteq> None" by (simp add: iter_def map_of_eq_None_iff)
  then obtain v where "map_of (fod_d d) k = Some v" by auto
  then show ?thesis by (auto simp: getitem_def dest: map_of_SomeD)
qed

section \<open>sample, unfolded\<close>

lemma block_rows: "zip (replicate (length x) a) x = map (Pair a) x"
  by (simp add: zip_replicate1)

lemma sample_blocks:
  "concat (map (\<lambda>(i, x). zip (replicate (length x) (real i)) x) (enumerate k (replicate n coords)))
     = concat (map (\<lambda>i. map (Pair (real i)) coords) [k..<k + n])"
proof (induction n arbitrary: k)
  case 0
  then show ?case by simp
next
  case (Suc n)
  have "[k..<k + Suc n] = k # [Suc k..<Suc k + n]" by (simp add: upt_rec)
  with Suc[of "Suc k"] show ?case by (simp add: block_rows)
qed

lemma sample_eq:
  "sample m coords =
     (if keys m = [] then Inl ValueError
      else Inr (concat (map (\<lambda>i. map (Pair (real i)) coords) [0..<length (keys m)])))"
  using sample_blocks[of 0 "length (keys m)" coords]
  by (simp add: sample_def x_2d_from_1d_eq)

lemma length_concat_const:
  "length (concat (map (\<lambda>i. map (f i) coords) is)) = length is * length coords"
  by (induction "is") simp_all

section \<open>from_scikit_learn_data, unfolded\<close>

lemma select_mask:
  "select (map P rows) a = map snd (filter (\<lambda>(row, v). P row) (zip rows a))"
  by (simp add: select_def zip_map1 filter_map o_def split_def)

lemma select_rows: "select (map P rows) (map f rows) = map f (filter P rows)"
  by (induction rows) (simp_all add: select_def)

lemma rows_at_position_select:
  "rows_at_position np data i =
     \<lparr>sd_x = select (map (\<lambda>row. fst row = real i) (sk_x data)) (map snd (sk_x data)),
      sd_y = map (\<lambda>v. np_multiply np v (sk_norm data))
               (select (map (\<lambda>row. fst row = real i) (sk_x data)) (sk_y data)),
      sd_err = map (\<lambda>v. np_multiply np v (sk_norm data))
                 (select (map (\<lambda>row. fst row = real i) (sk_x data)) (sk_err data))\<rparr>"
proof -
  have x: "map snd (filter (\<lambda>row. fst row = real i) (sk_x data))
      = select (map (\<lambda>row. fst row = real i) (sk_x data)) (map snd (sk_x data))"
    by (simp only: select_rows)
  have y: "map (\<lambda>(row, v). g v) (filter (\<lambda>(row, v). fst row = real i) (zip rows a))
      = map g (select (map (\<lambda>row. fst row = real i) rows) a)"
    for g :: "'b \<Rightarrow> 'c" and rows :: "(real \<times> real) list" and a
    by (simp add: select_mask split_def o_def)
  show ?thesis by (simp only: rows_at_position_def x y)
qed

lemma sequence_Inr: "sequence (map (\<lambda>p. Inr (f p)) ps) = Inr (map f ps)"
  by (induction ps) simp_all

lemma generator_ok:
  assumes "sk_x data = [] \<or>
      (length (sk_y data) = length (sk_x data) \<and> length (sk_err data) = length (sk_x data))"
  shows "multi_state_data_generator np data ks =
     map (\<lambda>p. Inr (snd p, rows_at_position np data (fst p))) (enumerate 0 ks)"
  using assms
  by (auto simp add: multi_state_data_generator_def bool_index_def Let_def rows_at_position_select
      split_def)

lemma generator_bad:
  assumes "ks \<noteq> []" and "sk_x data \<noteq> []"
    and "length (sk_y data) \<noteq> length (sk_x data) \<or> length (sk_err data) \<noteq> length (sk_x data)"
  shows "sequence (multi_state_data_generator np data ks) = Inl IndexError"
proof -
  from assms(1) obtain k ks' where ks: "ks = k # ks'" by (cases ks) auto
  from assms(2,3) show ?thesis
    by (auto simp add: ks multi_state_data_generator_def bool_index_def Let_def)
qed

lemma from_scikit_learn_data_Some:
  "from_scikit_learn_data np data (Some ks) =
     (if ks = [] \<or> sk_x data = [] \<or>
         (length (sk_y data) = length (sk_x data) \<and> length (sk_err data) = length (sk_x data))
      then Inr (MultiStateData_init
                 (FrozenOrderedDict_init
                    (map (\<lambda>p. (snd p, rows_at_position np data (fst p))) (enumerate 0 ks))) data)
      else Inl IndexError)"
proof (cases "ks = []")
  case True
  then show ?thesis
    by (simp add: from_scikit_learn_data_def multi_state_data_generator_def)
next
  case False
  show ?thesis
  proof (cases "sk_x data = [] \<or>
      (length (sk_y data) = length (sk_x data) \<and> length (sk_err data) = length (sk_x data))")
    case True
    then show ?thesis
      by (simp add: from_scikit_learn_data_def generator_ok sequence_Inr)
  next
    case bad: False
    with False generator_bad[of ks data np] show ?thesis
      by (auto simp add: from_scikit_learn_data_def)
  qed
qed

lemma from_scikit_learn_data_None:
  "from_scikit_learn_data np data None =
     from_scikit_learn_data np data (Some (map Numeric (np_unique (map fst (sk_x data)))))"
  by (simp add: from_scikit_learn_data_def)

lemma np_unique_sorted_list_of_set: "np_unique a = sorted_list_of_set (set a)"
  by (simp add: np_unique_def sorted_list_of_set_sort_remdups)

lemma map_fst_positions: "map fst (map (\<lambda>p. (snd p, f (fst p))) (enumerate n ks)) = ks"
  by (induction ks arbitrary: n) simp_all

lemma keys_from_scikit_learn_data:
  assumes "from_scikit_learn_data np data (Some ks) = Inr m" and "distinct ks"
  shows "keys m = ks"
proof -
  let ?items = "map (\<lambda>p. (snd p, rows_at_position np data (fst p))) (enumerate 0 ks)"
  from assms(1) have m: "m = MultiStateData_init (FrozenOrderedDict_init ?items) data"
    by (simp add: from_scikit_learn_data_Some split: if_splits)
  have "distinct (map fst ?items)" using assms(2) by (simp only: map_fst_positions)
  then have "OrderedDict ?items = ?items" by (rule OrderedDict_distinct)
  then show ?thesis unfolding m keys_init by (simp only: map_fst_positions)
qed

lemma map_of_foldl_setitem:
  "map_of (foldl (\<lambda>d (k, v). setitem k v d) d items) = map_of d ++ map_of (rev items)"
proof (induction items arbitrary: d)
  case Nil
  then show ?case by simp
next
  case (Cons p items)
  obtain k v where p: "p = (k, v)" by (cases p)
  show ?case
    by (auto simp: Cons.IH p map_of_setitem fun_eq_iff map_add_def split: option.splits)
qed

lemma map_of_OrderedDict: "map_of (OrderedDict items) = map_of (rev items)"
  by (simp add: OrderedDict_def map_of_foldl_setitem)

lemma map_of_rev_mid:
  assumes "fst y \<notin> fst ` set zs"
  shows "map_of (rev (xs @ y # zs)) (fst y) = Some (snd y)"
proof -
  from assms have "map_of (rev zs) (fst y) = None"
    by (simp add: map_of_eq_None_iff)
  then show ?thesis
    by (cases y) (simp add: map_add_def)
qed

lemma map_of_rev_last_occurrence:
  assumes "i < length items" and "fst (items ! i) \<notin> fst ` set (drop (Suc i) items)"
  shows "map_of (rev items) (fst (items ! i)) = Some (snd (items ! i))"
proof -
  have "items = take i items @ items ! i # drop (Suc i) items"
    using assms(1) by (rule id_take_nth_drop)
  with map_of_rev_mid[OF assms(2), of "take i items"] show ?thesis by simp
qed

section \<open>Selecting the block of one state\<close>









lemma itervalues_distinct:
  "distinct (map fst items) \<Longrightarrow> itervalues (FrozenOrderedDict_init items) = map snd items"
  by (simp add: itervalues_def FrozenOrderedDict_init_def OrderedDict_distinct)

lemma from_state_data_integer:
  assumes "\<not> np_inplace np"
    and "concat (map sd_y (itervalues (FrozenOrderedDict_init items))) \<noteq> []"
  shows "from_state_data np items = Inl TypeError"
  unfolding from_state_data_eq Let_def using assms by simp

section \<open>convert_arrays\<close>

text \<open>
  Claim C2 (carry-over) says that \<^verbatim>\<open>convert_arrays(x, y, err)\<close> returns a new instance with the
  norm and the keys of the instance it is called on. The code does not get that far: on every
  instance and every triple the call raises \<^verbatim>\<open>AttributeError\<close>, because the expression that
  stands where a docstring was meant reads \<^verbatim>\<open>self.__name__\<close>, which no instance has.
\<close>

theorem convert_arrays_raises: "convert_arrays np self x y err = Inl AttributeError"
  by (simp add: convert_arrays_def instance_attributes_def)

text \<open>
  The \<^verbatim>\<open>return\<close> expression alone does what the claim says: when \<^verbatim>\<open>from_arrays\<close> on the
  new triple with the norm and the keys of the instance returns, the new instance has that norm
  and those keys.
\<close>

lemma return_expression_carries_over:
  assumes "self = MultiStateData_init (FrozenOrderedDict_init items) data"
    and "from_arrays np x y err (norm_m self) (Some (keys self)) = Inr m"
  shows "norm_m m = norm_m self \<and> keys m = keys self"
proof -
  from assms(2) have e: "from_scikit_learn_data np
      \<lparr>sk_x = x, sk_y = y, sk_err = err, sk_norm = norm_m self\<rparr> (Some (keys self)) = Inr m"
    by (simp add: from_arrays_def)
  have "distinct (keys self)"
    unfolding assms(1) keys_init by (rule distinct_OrderedDict)
  with e have "keys m = keys self" by (rule keys_from_scikit_learn_data)
  moreover from e have "norm_m m = norm_m self"
    by (auto simp add: from_scikit_learn_data_Some norm_m_def MultiStateData_init_def split: if_splits)
  ultimately show ?thesis by simp
qed

section \<open>The norm of from_state_data\<close>

text \<open>
  Claim C3 (positivity) says that the norm of every constructed instance is greater than zero.
  \<^verbatim>\<open>from_state_data\<close> takes \<^verbatim>\<open>y.std() or y[0] or 1\<close>: when all values are equal the standard
  deviation is zero and the norm is the first value, whatever its sign. One state with the single
  floating-point value \<open>-5\<close> is constructed with norm \<open>-5\<close>; the standard deviation of one
  value is exactly zero in floating point as well.
\<close>

theorem from_state_data_negative_norm:
  "map_sum id norm_m
     (from_state_data real_numpy [(Named ''A'', \<lparr>sd_x = [0], sd_y = [-5], sd_err = [1]\<rparr>)])
     = Inr (-5)"
  by (simp add: from_state_data_def FrozenOrderedDict_init_def OrderedDict_def itervalues_def
      x_2d_from_1d_def np_block_def np_hstack_def real_numpy_def exact_std_def exact_mean_def
      py_or_def itruediv_def MultiStateData_init_def norm_m_def np_full_like_def Let_def)

text \<open>
  When that happens, in exact arithmetic: the norm of \<^verbatim>\<open>from_state_data\<close> is never zero, and
  it is negative exactly when the standard deviation is zero and the first value is negative.
\<close>

lemma exact_std_nonneg: "0 \<le> exact_std a"
proof -
  have "0 \<le> sum_list (map (\<lambda>v. (v - exact_mean a)\<^sup>2) a)"
    by (rule sum_list_nonneg) auto
  then show ?thesis by (simp add: exact_std_def exact_mean_def)
qed

lemma from_state_data_norm_sign:
  assumes "from_state_data real_numpy items = Inr m"
    and "flat_y = concat (map sd_y (itervalues (FrozenOrderedDict_init items)))"
  shows "norm_m m \<noteq> 0
     \<and> (norm_m m < 0) = (exact_std flat_y = 0 \<and> flat_y ! 0 < 0)"
proof -
  from assms have "norm_m m = py_or (py_or (exact_std flat_y) (flat_y ! 0)) 1"
    by (auto simp add: from_state_data_eq Let_def norm_m_def MultiStateData_init_def real_numpy_def
        split: if_splits)
  with exact_std_nonneg[of flat_y] show ?thesis
    by (auto simp add: py_or_def)
qed

section \<open>The hash of a FrozenOrderedDict\<close>

text \<open>
  Claim C6 (structural hash) says that the hash is a function of the entries and that hashing
  fails when a value is unhashable. The code hashes the iterator that \<^verbatim>\<open>iteritems\<close> returns:
  on a dictionary with no cached hash the result is the identity hash of that iterator for every
  list of items, it is cached, and no error is raised whatever the values are.
\<close>

theorem hash_ignores_entries:
  "hash h (FrozenOrderedDict_init items) =
     Inr (h, \<lparr>fod_d = OrderedDict items, fod_hash = Some h\<rparr>)"
  by (simp add: hash_def FrozenOrderedDict_init_def)

text \<open>Once a hash is cached, every later call returns it: that part of the claim holds.\<close>

lemma hash_cached:
  "hash h' \<lparr>fod_d = d, fod_hash = Some h\<rparr> = Inr (h, \<lparr>fod_d = d, fod_hash = Some h\<rparr>)"
  by (simp add: hash_def)

section \<open>The norm fallback chain\<close>

text \<open>
  Claim C4 (norm fallback chain): in \<^verbatim>\<open>from_state_data\<close>, whenever the concatenated value
  vector \<open>flat_y\<close> is not empty, the norm is the standard deviation of \<open>flat_y\<close> if that is
  nonzero, otherwise \<open>flat_y[0]\<close> if that is nonzero, otherwise 1, whatever numpy returns as the
  standard deviation and as the quotients. On floating-point values the instance with this norm
  is returned; on integer values the norm is computed and \<^verbatim>\<open>y /= norm\<close> then raises.
\<close>

theorem norm_fallback_chain:
  assumes "concat (map sd_y (itervalues (FrozenOrderedDict_init items))) = flat_y"
    and "flat_y \<noteq> []"
  shows "if np_inplace np
     then \<exists>m. from_state_data np items = Inr m \<and>
            norm_m m = (if np_std np flat_y \<noteq> 0 then np_std np flat_y
                        else if flat_y ! 0 \<noteq> 0 then flat_y ! 0 else 1)
     else from_state_data np items = Inl TypeError"
proof (cases "np_inplace np")
  case True
  let ?c = "py_or (py_or (np_std np flat_y) (flat_y ! 0)) 1"
  have "from_state_data np items = Inr (MultiStateData_init (FrozenOrderedDict_init items)
          \<lparr>sk_x = concat (map (\<lambda>(i, x). zip (replicate (length x) (real i)) x)
                    (enumerate 0 (map sd_x (itervalues (FrozenOrderedDict_init items))))),
           sk_y = map (\<lambda>v. np_divide np v ?c) flat_y,
           sk_err = map (\<lambda>v. np_divide np v ?c)
                      (concat (map sd_err (itervalues (FrozenOrderedDict_init items)))),
           sk_norm = ?c\<rparr>)"
    unfolding from_state_data_eq Let_def assms(1) using assms(2) True by simp
  with True show ?thesis
    by (simp add: py_or_chain norm_m_def MultiStateData_init_def)
next
  case False
  with assms from_state_data_integer[of np items] show ?thesis by simp
qed

text \<open>
  The three branches of the chain in exact arithmetic, each at a concrete dataset: the two
  states of the specification's example (standard deviation \<open>sqrt (200 / 3)\<close>), the constant
  values \<open>7, 7\<close> (first element) and the values \<open>0, 0\<close> (the constant 1).
\<close>

theorem norm_fallback_chain_witness:
  "(\<exists>m. from_state_data real_numpy
          [(Named ''A'', \<lparr>sd_x = [1, 2], sd_y = [10, 20], sd_err = [1, 1]\<rparr>),
           (Named ''B'', \<lparr>sd_x = [3], sd_y = [30], sd_err = [2]\<rparr>)] = Inr m
        \<and> norm_m m = sqrt (200 / 3))
   \<and> (\<exists>m. from_state_data real_numpy
          [(Named ''A'', \<lparr>sd_x = [1, 2], sd_y = [7, 7], sd_err = [1, 1]\<rparr>)] = Inr m
        \<and> norm_m m = 7)
   \<and> (\<exists>m. from_state_data real_numpy
          [(Named ''A'', \<lparr>sd_x = [1, 2], sd_y = [0, 0], sd_err = [1, 1]\<rparr>)] = Inr m
        \<and> norm_m m = 1)"
proof (intro conjI)
  show "\<exists>m. from_state_data real_numpy
          [(Named ''A'', \<lparr>sd_x = [1, 2], sd_y = [10, 20], sd_err = [1, 1]\<rparr>),
           (Named ''B'', \<lparr>sd_x = [3], sd_y = [30], sd_err = [2]\<rparr>)] = Inr m
        \<and> norm_m m = sqrt (200 / 3)"
    using norm_fallback_chain [of
        "[(Named ''A'', \<lparr>sd_x = [1, 2], sd_y = [10, 20], sd_err = [1, 1]\<rparr>),
          (Named ''B'', \<lparr>sd_x = [3], sd_y = [30], sd_err = [2]\<rparr>)]" "[10, 20, 30]" real_numpy]
    by (simp add: FrozenOrderedDict_init_def OrderedDict_def itervalues_def real_numpy_def
        exact_std_def exact_mean_def)
  show "\<exists>m. from_state_data real_numpy
          [(Named ''A'', \<lparr>sd_x = [1, 2], sd_y = [7, 7], sd_err = [1, 1]\<rparr>)] = Inr m
        \<and> norm_m m = 7"
    using norm_fallback_chain [of
        "[(Named ''A'', \<lparr>sd_x = [1, 2], sd_y = [7, 7], sd_err = [1, 1]\<rparr>)]" "[7, 7]" real_numpy]
    by (simp add: FrozenOrderedDict_init_def OrderedDict_def itervalues_def real_numpy_def
        exact_std_def exact_mean_def)
  show "\<exists>m. from_state_data real_numpy
          [(Named ''A'', \<lparr>sd_x = [1, 2], sd_y = [0, 0], sd_err = [1, 1]\<rparr>)] = Inr m
        \<and> norm_m m = 1"
    using norm_fallback_chain [of
        "[(Named ''A'', \<lparr>sd_x = [1, 2], sd_y = [0, 0], sd_err = [1, 1]\<rparr>)]" "[0, 0]" real_numpy]
    by (simp add: FrozenOrderedDict_init_def OrderedDict_def itervalues_def real_numpy_def
        exact_std_def exact_mean_def)
qed

section \<open>Lookup of keys and indices\<close>

text \<open>
  Claim C10 (invalid lookups), as the code has it. For every instance that \<^verbatim>\<open>__init__\<close> builds
  from a \<^verbatim>\<open>FrozenOrderedDict\<close>: \<^verbatim>\<open>idx(k)\<close> raises \<^verbatim>\<open>KeyError\<close> for a key that is not
  registered and returns the position of a registered key; \<^verbatim>\<open>key(i)\<close> returns the key at
  position \<open>i\<close> for \<open>0 \<le> i < numStates\<close>, counts a negative \<open>i\<close> from the end for
  \<open>-numStates \<le> i < 0\<close>, and raises \<^verbatim>\<open>IndexError\<close> for every other \<open>i\<close>; looking up a
  key in a \<^verbatim>\<open>FrozenOrderedDict\<close> raises \<^verbatim>\<open>KeyError\<close> when the key is absent and returns
  its value when it is present.
\<close>

theorem lookup_errors:
  assumes "m = MultiStateData_init (FrozenOrderedDict_init items) data"
  shows "(k \<notin> set (keys m) \<longrightarrow> idx m k = Inl KeyError)
       \<and> (\<forall>i < length (keys m). idx m (keys m ! i) = Inr i)
       \<and> (0 \<le> j \<and> j < int (length (keys m)) \<longrightarrow> key m j = Inr (keys m ! nat j))
       \<and> (- int (length (keys m)) \<le> j \<and> j < 0 \<longrightarrow>
            key m j = Inr (keys m ! nat (int (length (keys m)) + j)))
       \<and> (j < - int (length (keys m)) \<or> int (length (keys m)) \<le> j \<longrightarrow> key m j = Inl IndexError)
       \<and> (k' \<notin> set (iter d) \<longrightarrow> getitem d k' = Inl KeyError)
       \<and> (k' \<in> set (iter d) \<longrightarrow> (\<exists>v. getitem d k' = Inr v \<and> (k', v) \<in> set (fod_d d)))"
proof (intro conjI impI allI)
  show "idx m k = Inl KeyError" if "k \<notin> set (keys m)"
    using that unfolding assms by (simp add: keys_init idx_init foldl_idx_absent)
  show "idx m (keys m ! i) = Inr i" if "i < length (keys m)" for i
  proof -
    from that have "i < length (map fst (OrderedDict items))"
      unfolding assms by (simp add: keys_init)
    from foldl_idx_present[OF distinct_OrderedDict this, of Map.empty 0]
    show ?thesis unfolding assms keys_init idx_init by simp
  qed
  show "key m j = Inr (keys m ! nat j)" if "0 \<le> j \<and> j < int (length (keys m))"
    using that by (simp add: key_def keys_def tuple_getitem_def)
  show "key m j = Inr (keys m ! nat (int (length (keys m)) + j))"
    if "- int (length (keys m)) \<le> j \<and> j < 0"
    using that by (simp add: key_def keys_def tuple_getitem_def)
  show "key m j = Inl IndexError" if "j < - int (length (keys m)) \<or> int (length (keys m)) \<le> j"
    using that by (auto simp add: key_def keys_def tuple_getitem_def)
  show "getitem d k' = Inl KeyError" if "k' \<notin> set (iter d)"
    using that by (rule getitem_absent)
  show "\<exists>v. getitem d k' = Inr v \<and> (k', v) \<in> set (fod_d d)" if "k' \<in> set (iter d)"
    using that by (rule getitem_present)
qed

text \<open>The lookups of the example instance: the keys are \<open>A\<close> and \<open>B\<close>.\<close>

theorem lookup_errors_witness:
  "idx (MultiStateData_init (FrozenOrderedDict_init example_states) example_arrays) (Named ''C'')
     = Inl KeyError
   \<and> idx (MultiStateData_init (FrozenOrderedDict_init example_states) example_arrays) (Named ''B'')
     = Inr 1
   \<and> key (MultiStateData_init (FrozenOrderedDict_init example_states) example_arrays) 1
     = Inr (Named ''B'')
   \<and> key (MultiStateData_init (FrozenOrderedDict_init example_states) example_arrays) (- 1)
     = Inr (Named ''B'')
   \<and> key (MultiStateData_init (FrozenOrderedDict_init example_states) example_arrays) 2
     = Inl IndexError
   \<and> key (MultiStateData_init (FrozenOrderedDict_init example_states) example_arrays) (- 3)
     = Inl IndexError
   \<and> getitem (FrozenOrderedDict_init example_states) (Named ''C'') = Inl KeyError
   \<and> (\<exists>v. getitem (FrozenOrderedDict_init example_states) (Named ''A'') = Inr v)"
proof -
  let ?m = "MultiStateData_init (FrozenOrderedDict_init example_states) example_arrays"
  have ks: "keys ?m = [Named ''A'', Named ''B'']"
    by (simp add: keys_init OrderedDict_example) (simp add: example_states_def)
  have it: "iter (FrozenOrderedDict_init example_states) = [Named ''A'', Named ''B'']"
    by (simp add: iter_def FrozenOrderedDict_init_def OrderedDict_example) (simp add: example_states_def)
  note L = lookup_errors [OF refl, where items = example_states and data = example_arrays
      and d = "FrozenOrderedDict_init example_states"]
  from L [where k = "Named ''C''" and j = 1 and k' = "Named ''C''"]
    L [where k = "Named ''C''" and j = "- 1" and k' = "Named ''A''"]
    L [where k = "Named ''C''" and j = 2 and k' = "Named ''A''"]
    L [where k = "Named ''C''" and j = "- 3" and k' = "Named ''A''"]
  show ?thesis
    unfolding ks it by (auto simp: eval_nat_numeral)
qed

text \<open>
  The claim as stated has \<^verbatim>\<open>key(i)\<close> fail for every \<open>i\<close> outside \<open>[0, numStates)\<close>. With one
  state \<open>A\<close>, \<^verbatim>\<open>key(-1)\<close> returns \<open>A\<close>.
\<close>

theorem key_negative_index_counterexample:
  "map_sum id (\<lambda>m. key m (- 1)) (from_items real_numpy [(Named ''A'', [1], [10], [1])])
     = Inr (Inr (Named ''A''))"
  by (simp add: from_items_def from_state_data_eq Let_def FrozenOrderedDict_init_def OrderedDict_def
      itervalues_def key_def MultiStateData_init_def iter_def tuple_getitem_def real_numpy_def)

section \<open>sample\<close>

text \<open>
  Claim C9 (sample shape), as the code has it. For every instance with at least one state and
  every coordinate sequence, \<^verbatim>\<open>sample(coords)\<close> returns a matrix with two columns and
  \<open>numStates * len(coords)\<close> rows: for each state index \<open>i\<close> from 0 in key order, one row
  \<open>(i, c)\<close> per coordinate \<open>c\<close>. Its first column is each state index repeated
  \<open>len(coords)\<close> times, its second column is \<open>coords\<close> once per state.
\<close>

theorem sample_shape:
  assumes "keys m \<noteq> []"
  shows "\<exists>X. sample m coords = Inr X
     \<and> X = concat (map (\<lambda>i. map (\<lambda>c. (real i, c)) coords) [0..<length (keys m)])
     \<and> length X = length (keys m) * length coords
     \<and> map fst X = concat (map (\<lambda>i. replicate (length coords) (real i)) [0..<length (keys m)])
     \<and> map snd X = concat (replicate (length (keys m)) coords)"
proof -
  let ?X = "concat (map (\<lambda>i. map (Pair (real i)) coords) [0..<length (keys m)])"
  have 1: "sample m coords = Inr ?X" using assms by (simp add: sample_eq)
  have 2: "length ?X = length (keys m) * length coords"
    by (simp add: length_concat_const)
  have 3: "map fst (concat (map (\<lambda>i. map (Pair (real i)) coords) is))
      = concat (map (\<lambda>i. replicate (length coords) (real i)) is)" for "is"
    by (induction "is") (simp_all add: map_replicate_const o_def)
  have 4: "map snd (concat (map (\<lambda>i. map (Pair (real i)) coords) is))
      = concat (replicate (length is) coords)" for "is"
    by (induction "is") (simp_all add: o_def)
  from 1 2 3[of "[0..<length (keys m)]"] 4[of "[0..<length (keys m)]"] show ?thesis by simp
qed

text \<open>The example instance has two states; three coordinates give six rows.\<close>

theorem sample_shape_witness:
  "sample (MultiStateData_init (FrozenOrderedDict_init example_states) example_arrays) [5, 6, 7]
     = Inr [(0, 5), (0, 6), (0, 7), (1, 5), (1, 6), (1, 7)]"
proof -
  let ?m = "MultiStateData_init (FrozenOrderedDict_init example_states) example_arrays"
  have ks: "keys ?m = [Named ''A'', Named ''B'']"
    by (simp add: keys_init OrderedDict_example) (simp add: example_states_def)
  from sample_shape [of ?m "[5, 6, 7]"] show ?thesis
    unfolding ks by (auto simp: upt_rec)
qed

text \<open>
  The claim as stated covers every constructed instance. \<^verbatim>\<open>from_arrays\<close> on empty arrays
  constructs an instance with no state, and \<^verbatim>\<open>sample\<close> on it hands \<^verbatim>\<open>np.block\<close> an empty
  list: it raises \<^verbatim>\<open>ValueError\<close> instead of returning a matrix with no rows.
\<close>

theorem sample_no_states_counterexample:
  "map_sum id (\<lambda>m. (length (keys m), sample m [5, 6, 7]))
     (from_arrays real_numpy [] [] [] 1 (None :: string state_key list option)) = Inr (0, Inl ValueError)"
  by (simp add: from_arrays_def from_scikit_learn_data_def np_unique_def
      multi_state_data_generator_def sample_eq keys_init OrderedDict_def)

section \<open>Default keys\<close>

text \<open>
  Claim C8 (default keys): when \<^verbatim>\<open>from_scikit_learn_data\<close> is called without keys, it behaves
  as when called with \<^verbatim>\<open>np.unique\<close> of the index column, which is the list of the distinct
  values of that column in ascending order; an instance it returns has exactly these keys.
\<close>

theorem default_keys:
  "from_scikit_learn_data np data None =
     from_scikit_learn_data np data (Some (map Numeric (np_unique (map fst (sk_x data)))))
   \<and> np_unique (map fst (sk_x data)) = sorted_list_of_set (fst ` set (sk_x data))
   \<and> (from_scikit_learn_data np data None = Inr m \<longrightarrow>
        keys m = map Numeric (sorted_list_of_set (fst ` set (sk_x data))))"
proof (intro conjI impI)
  show "from_scikit_learn_data np data None =
     from_scikit_learn_data np data (Some (map Numeric (np_unique (map fst (sk_x data)))))"
    by (rule from_scikit_learn_data_None)
  show u: "np_unique (map fst (sk_x data)) = sorted_list_of_set (fst ` set (sk_x data))"
    by (simp add: np_unique_sorted_list_of_set)
  assume "from_scikit_learn_data np data None = Inr m"
  then have "from_scikit_learn_data np data
      (Some (map Numeric (sorted_list_of_set (fst ` set (sk_x data))))) = Inr m"
    by (simp add: from_scikit_learn_data_None u)
  moreover have "distinct (map Numeric (sorted_list_of_set (fst ` set (sk_x data))))"
    by (simp add: distinct_map inj_on_def)
  ultimately show "keys m = map Numeric (sorted_list_of_set (fst ` set (sk_x data)))"
    by (rule keys_from_scikit_learn_data)
qed

text \<open>An index column \<open>1, 0, 1\<close> gives the keys \<open>0, 1\<close>.\<close>

theorem default_keys_witness:
  "\<exists>m. from_scikit_learn_data real_numpy
          \<lparr>sk_x = [(1, 5), (0, 6), (1, 7)], sk_y = [1, 2, 3], sk_err = [4, 5, 6], sk_norm = 2\<rparr>
          (None :: string state_key list option) = Inr m
       \<and> keys m = [Numeric 0, Numeric 1]"
proof -
  let ?D = "\<lparr>sk_x = [(1, 5), (0, 6), (1, 7)], sk_y = [1, 2, 3], sk_err = [4, 5, 6],
      sk_norm = 2\<rparr> :: real ScikitLearnData"
  obtain m :: "(string, real) MultiStateData" where e: "from_scikit_learn_data real_numpy ?D None = Inr m"
    by (simp add: from_scikit_learn_data_None from_scikit_learn_data_Some)
  have u: "np_unique (map fst (sk_x ?D)) = [0, 1]"
    by (simp add: np_unique_def)
  from default_keys [where np = real_numpy and data = ?D and m = m]
  have a: "np_unique (map fst (sk_x ?D)) = sorted_list_of_set (fst ` set (sk_x ?D))"
    and b: "from_scikit_learn_data real_numpy ?D None = Inr m \<longrightarrow>
        keys m = map Numeric (sorted_list_of_set (fst ` set (sk_x ?D)))"
    by blast+
  from b e have "keys m = map Numeric (sorted_list_of_set (fst ` set (sk_x ?D)))" by blast
  then have "keys m = map Numeric (np_unique (map fst (sk_x ?D)))" by (simp only: a)
  then have "keys m = [Numeric 0, Numeric 1]" by (simp only: u list.map)
  with e show ?thesis by blast
qed

section \<open>Positional matching\<close>

text \<open>
  Claim C7 (positional matching), as the code has it. When \<^verbatim>\<open>from_scikit_learn_data\<close> returns
  an instance for the supplied keys, and the key at position \<open>k\<close> does not occur again later in
  the sequence (every position, when the keys are distinct), the state named by that key holds
  exactly the rows whose index column equals \<open>k\<close>, de-normalised. The value of the key plays
  no part in the selection.
\<close>

theorem positional_matching:
  assumes "from_scikit_learn_data np data (Some ks) = Inr m"
    and "k < length ks"
    and "ks ! k \<notin> set (drop (Suc k) ks)"
  shows "getitem (odict m) (ks ! k) = Inr (rows_at_position np data k)"
proof -
  let ?items = "map (\<lambda>p. (snd p, rows_at_position np data (fst p))) (enumerate 0 ks)"
  from assms(1) have m: "m = MultiStateData_init (FrozenOrderedDict_init ?items) data"
    by (simp add: from_scikit_learn_data_Some split: if_splits)
  have len: "k < length ?items" using assms(2) by simp
  have nth: "?items ! k = (ks ! k, rows_at_position np data k)"
    using assms(2) by (simp add: nth_enumerate_eq)
  have "map fst (drop (Suc k) ?items) = drop (Suc k) ks"
    by (simp only: drop_map[symmetric] map_fst_positions)
  then have "fst ` set (drop (Suc k) ?items) = set (drop (Suc k) ks)"
    by (metis set_map)
  with assms(3) nth have "fst (?items ! k) \<notin> fst ` set (drop (Suc k) ?items)" by simp
  from map_of_rev_last_occurrence[OF len this]
  have "map_of (OrderedDict ?items) (ks ! k) = Some (rows_at_position np data k)"
    by (simp add: map_of_OrderedDict nth)
  then show ?thesis
    by (simp add: m odict_def MultiStateData_init_def getitem_def FrozenOrderedDict_init_def)
qed

text \<open>
  Numeric keys in the order \<open>1, 0\<close>: the state named \<open>1\<close> is at position 0 and gets the rows
  whose index column is 0, not those whose index column is 1.
\<close>

theorem positional_matching_witness:
  "\<exists>m. from_arrays real_numpy [(0, 10), (1, 20), (0, 30)] [1, 2, 3] [4, 5, 6] 2
          (Some [Numeric 1, Numeric 0 :: string state_key]) = Inr m
       \<and> getitem (odict m) (Numeric 1) = Inr \<lparr>sd_x = [10, 30], sd_y = [2, 6], sd_err = [8, 12]\<rparr>"
proof -
  let ?D = "\<lparr>sk_x = [(0, 10), (1, 20), (0, 30)], sk_y = [1, 2, 3], sk_err = [4, 5, 6],
      sk_norm = 2\<rparr> :: real ScikitLearnData"
  let ?ks = "[Numeric 1, Numeric 0 :: string state_key]"
  obtain m where e: "from_scikit_learn_data real_numpy ?D (Some ?ks) = Inr m"
    by (simp add: from_scikit_learn_data_Some)
  have "getitem (odict m) (?ks ! 0) = Inr (rows_at_position real_numpy ?D 0)"
    by (rule positional_matching [OF e]) simp_all
  then have "getitem (odict m) (Numeric 1) = Inr \<lparr>sd_x = [10, 30], sd_y = [2, 6], sd_err = [8, 12]\<rparr>"
    by (simp add: rows_at_position_def real_numpy_def)
  with e show ?thesis by (simp add: from_arrays_def)
qed

text \<open>
  The claim as stated covers every key sequence. When a key is repeated, the dictionary keeps the
  item yielded last: with the keys \<open>A, A\<close> the state named by the key at position 0 holds the
  row whose index column is 1, and the row whose index column is 0 is in no state.
\<close>

theorem duplicate_keys_counterexample:
  "map_sum id (\<lambda>m. getitem (odict m) (Named ''A''))
      (from_arrays real_numpy [(0, 10), (1, 20)] [1, 2] [3, 4] 1 (Some [Named ''A'', Named ''A'']))
     = Inr (Inr \<lparr>sd_x = [20], sd_y = [2], sd_err = [4]\<rparr>)
   \<and> rows_at_position real_numpy \<lparr>sk_x = [(0, 10), (1, 20)], sk_y = [1, 2], sk_err = [3, 4], sk_norm = 1\<rparr> 0
     = \<lparr>sd_x = [10], sd_y = [1], sd_err = [3]\<rparr>"
  by (simp add: from_arrays_def from_scikit_learn_data_Some odict_def MultiStateData_init_def
      FrozenOrderedDict_init_def OrderedDict_def getitem_def rows_at_position_def real_numpy_def)

section \<open>Round trip\<close>




section \<open>Empty and integer input\<close>

text \<open>
  Claim C5 (empty-input failure) says that \<^verbatim>\<open>from_state_data\<close>, and with it
  \<^verbatim>\<open>from_items\<close>, raises only when the states hold no value in total, and returns an instance
  on every other input. On the states of the specification's example held in integer arrays,
  \<^verbatim>\<open>from_items\<close> raises \<^verbatim>\<open>TypeError\<close>: the norm is computed, and the in-place
  \<^verbatim>\<open>y /= norm\<close> cannot store a quotient in an integer array. The errors are divided by
  \<^verbatim>\<open>err = ... / norm\<close>, not in place, which integer arrays allow.
\<close>

theorem from_items_integer_raises:
  "from_items int_numpy
     [(Named ''A'', [1, 2], [10, 20], [1, 1]), (Named ''B'', [3], [30], [2])] = Inl TypeError"
  by (simp add: from_items_def from_state_data_eq Let_def FrozenOrderedDict_init_def OrderedDict_def
      itervalues_def int_numpy_def real_numpy_def)

text \<open>
  What \<^verbatim>\<open>from_state_data\<close> returns on items with distinct keys, in every arithmetic:
  \<^verbatim>\<open>ValueError\<close> when the value sequences of the items have no element in total, else
  \<^verbatim>\<open>TypeError\<close> when the values are integers, else the instance that holds the dictionary of
  the items, the index and coordinate rows in key order, the values and errors divided by the
  norm, and the norm of the fallback chain.
\<close>

lemma blocks_of_items:
  "map (\<lambda>(i, x). zip (replicate (length x) (real i)) x) (enumerate n (map sd_x (map snd its)))
     = map (\<lambda>(i, k, sd). map (Pair (real i)) (sd_x sd)) (enumerate n its)"
  by (induction its arbitrary: n) (simp_all add: block_rows split_def)

lemma from_state_data_outcome:
  assumes "distinct (map fst items)"
  shows "from_state_data np items =
     (if concat (map (\<lambda>(k, sd). sd_y sd) items) = [] then Inl ValueError
      else if \<not> np_inplace np then Inl TypeError
      else Inr (MultiStateData_init (FrozenOrderedDict_init items)
             \<lparr>sk_x = concat (map (\<lambda>(i, k, sd). map (Pair (real i)) (sd_x sd)) (enumerate 0 items)),
              sk_y = map (\<lambda>v. np_divide np v
                              (py_or (py_or (np_std np (concat (map (\<lambda>(k, sd). sd_y sd) items)))
                                        (concat (map (\<lambda>(k, sd). sd_y sd) items) ! 0)) 1))
                       (concat (map (\<lambda>(k, sd). sd_y sd) items)),
              sk_err = map (\<lambda>v. np_divide np v
                              (py_or (py_or (np_std np (concat (map (\<lambda>(k, sd). sd_y sd) items)))
                                        (concat (map (\<lambda>(k, sd). sd_y sd) items) ! 0)) 1))
                         (concat (map (\<lambda>(k, sd). sd_err sd) items)),
              sk_norm = py_or (py_or (np_std np (concat (map (\<lambda>(k, sd). sd_y sd) items)))
                                (concat (map (\<lambda>(k, sd). sd_y sd) items) ! 0)) 1\<rparr>))"
proof -
  have y: "map sd_y (map snd items) = map (\<lambda>(k, sd). sd_y sd) items"
    and e: "map sd_err (map snd items) = map (\<lambda>(k, sd). sd_err sd) items"
    by (simp_all add: split_def)
  show ?thesis
    unfolding from_state_data_eq Let_def itervalues_distinct[OF assms] y e blocks_of_items ..
qed


end
